theory Spec2Isabelle
  imports Main
begin

section \<open>Python string primitives used by the translator\<close>

text \<open>
  Python \<open>str\<close> values are modelled as \<open>string\<close> (a list of 8-bit characters); the
  translator only ever inspects ASCII characters (quotes, backslash, newline, blanks,
  the dollar sign), so the byte view and the code-point view agree on everything it
  tests.
\<close>

abbreviation NL :: string where "NL \<equiv> [CHR 0x0A]"
abbreviation DQ :: string where "DQ \<equiv> [CHR 0x22]"
abbreviation BSL :: string where "BSL \<equiv> [CHR 0x5C]"

text \<open>\<open>sep.join(xs)\<close>.\<close>

fun join :: "string \<Rightarrow> string list \<Rightarrow> string" where
  "join sep [] = []"
| "join sep [x] = x"
| "join sep (x # y # ys) = x @ sep @ join sep (y # ys)"

text \<open>\<open>c.isspace()\<close> on the ASCII range: tab, LF, VT, FF, CR, FS, GS, RS, US and the blank.\<close>

definition isspace :: "char \<Rightarrow> bool" where
  "isspace c = (c \<in> set [CHR 0x09, CHR 0x0A, CHR 0x0B, CHR 0x0C, CHR 0x0D,
                          CHR 0x1C, CHR 0x1D, CHR 0x1E, CHR 0x1F, CHR 0x20])"

text \<open>\<open>s.strip()\<close>: leading and trailing whitespace removed.\<close>

definition strip :: "string \<Rightarrow> string" where
  "strip s = rev (dropWhile isspace (rev (dropWhile isspace s)))"

text \<open>\<open>s.startswith(p)\<close>.\<close>

definition startswith :: "string \<Rightarrow> string \<Rightarrow> bool" where
  "startswith s p = (take (length p) s = p)"

text \<open>\<open>s.split(c)\<close> for a one-character separator: never returns the empty list.\<close>

fun split :: "char \<Rightarrow> string \<Rightarrow> string list" where
  "split c [] = [[]]"
| "split c (x # xs) =
     (if x = c then [] # split c xs
      else (case split c xs of [] \<Rightarrow> [[x]] | w # ws \<Rightarrow> (x # w) # ws))"

text \<open>\<open>s.rsplit(c, 1)[0]\<close>: the text before the last occurrence of the separator, the
  whole string when the separator does not occur.\<close>

definition rsplit1_head :: "char \<Rightarrow> string \<Rightarrow> string" where
  "rsplit1_head c s =
     (if c \<in> set s then rev (tl (dropWhile (\<lambda>x. x \<noteq> c) (rev s))) else s)"

text \<open>\<open>s.replace(c, r)\<close> for a one-character pattern.\<close>

definition replace :: "char \<Rightarrow> string \<Rightarrow> string \<Rightarrow> string" where
  "replace c r s = concat (map (\<lambda>x. if x = c then r else [x]) s)"

text \<open>\<open>s.lower()\<close> on the ASCII range.\<close>

definition lower :: "string \<Rightarrow> string" where
  "lower s =
     map (\<lambda>c. if (65::nat) \<le> of_char c \<and> of_char c \<le> (90::nat)
              then char_of (of_char c + (32::nat)) else c) s"

text \<open>\<open>str(n)\<close> for a Python integer: canonical decimal form.\<close>

definition digit_char :: "nat \<Rightarrow> char" where
  "digit_char d =
     (if d = 0 then CHR ''0'' else if d = 1 then CHR ''1'' else if d = 2 then CHR ''2''
      else if d = 3 then CHR ''3'' else if d = 4 then CHR ''4'' else if d = 5 then CHR ''5''
      else if d = 6 then CHR ''6'' else if d = 7 then CHR ''7'' else if d = 8 then CHR ''8''
      else CHR ''9'')"

fun str_nat :: "nat \<Rightarrow> string" where
  "str_nat n = (if n < 10 then [digit_char n] else str_nat (n div 10) @ [digit_char (n mod 10)])"

definition str_int :: "int \<Rightarrow> string" where
  "str_int i = (if i < 0 then ''-'' @ str_nat (nat (- i)) else str_nat (nat i))"

text \<open>\<open>'    ' * n\<close>: the empty string when \<open>n \<le> 0\<close>.\<close>

definition times4 :: "int \<Rightarrow> string" where
  "times4 n = concat (replicate (nat n) ''    '')"


section \<open>The syntax tree consumed by the translator\<close>

text \<open>
  The tree is the one Python's \<open>ast\<close> module builds; only the fields the translator reads
  are kept. A constant carries \<open>None\<close>, a boolean, a string or an integer; every other
  constant (float, complex, bytes, Ellipsis) carries the text Python's \<open>str(value)\<close> gives for
  it, since the translator only prints it.
\<close>

datatype constant_value = CNone | CBool bool | CStr string | CInt int | COther string

datatype operator =
  Add | Sub | Mult | Div | Mod | PowOp | FloorDiv
  | MatMult | LShift | RShift | BitOr | BitXor | BitAnd

datatype cmpop = Eq | NotEq | Lt | LtE | Gt | GtE | Is | IsNot | In | NotIn

datatype unaryop = Invert | NotOp | UAdd | USub

datatype boolop = And | Or

text \<open>
  \<open>OtherExpr\<close> stands for every expression class of \<open>ast\<close> that \<open>translate_expr\<close> has no
  branch for (Lambda, JoinedStr, ListComp, Slice, Starred, ...). A dictionary key is
  \<open>None\<close> for a \<open>**mapping\<close> entry.
\<close>

datatype expr =
  Constant constant_value
  | Name string
  | Call expr "expr list"
  | BinOp expr operator expr
  | Compare expr "cmpop list" "expr list"
  | Attribute expr string
  | Subscript expr expr
  | List "expr list"
  | Dict "expr option list" "expr list"
  | Tuple "expr list"
  | UnaryOp unaryop expr
  | BoolOp boolop "expr list"
  | IfExp expr expr expr
  | OtherExpr

text \<open>
  Statements. \<open>Assign\<close> keeps \<open>targets[0]\<close> apart from the remaining targets: the parser
  never builds an assignment without a target, and the translator reads the first one
  only. \<open>OtherStmt\<close> stands for every statement class \<open>translate_statement\<close> has no
  branch for (With, Try, Raise, Assert, Delete, ...).
\<close>

datatype stmt =
  FunctionDef string "string list" "stmt list"
  | ClassDef string "stmt list"
  | Assign expr "expr list" expr
  | AugAssign expr operator expr
  | IfStmt expr "stmt list" "stmt list"
  | For expr expr "stmt list"
  | While expr "stmt list"
  | Return "expr option"
  | Expr expr
  | Import
  | ImportFrom
  | Pass
  | Break
  | Continue
  | OtherStmt

section \<open>Expression translation\<close>

text \<open>
  The expression methods read \<open>self.target_lang\<close> and nothing else of the translator, and
  assign to no attribute: they are functions of the target language \<open>lang\<close> and the node.
\<close>

definition translate_constant :: "constant_value \<Rightarrow> string" where
  "translate_constant v =
     (case v of
        CNone \<Rightarrow> ''null''
      | CBool True \<Rightarrow> ''true''
      | CBool False \<Rightarrow> ''false''
      | CStr s \<Rightarrow> DQ @ replace (CHR 0x22) (BSL @ DQ) (replace (CHR 0x5C) (BSL @ BSL) s) @ DQ
      | CInt i \<Rightarrow> str_int i
      | COther s \<Rightarrow> s)"

definition translate_constant_name :: "string \<Rightarrow> string" where
  "translate_constant_name name =
     (if name = ''True'' then ''true''
      else if name = ''False'' then ''false''
      else if name = ''None'' then ''null''
      else name)"

definition translate_operator :: "string \<Rightarrow> operator \<Rightarrow> string" where
  "translate_operator lang op =
     (case op of
        Add \<Rightarrow> (if lang = ''php'' then ''.'' else ''+'')
      | Sub \<Rightarrow> ''-''
      | Mult \<Rightarrow> ''*''
      | Div \<Rightarrow> ''/''
      | Mod \<Rightarrow> ''%''
      | PowOp \<Rightarrow> (if lang = ''php'' then ''**'' else ''**'')
      | FloorDiv \<Rightarrow> ''//''
      | _ \<Rightarrow> ''+'')"

definition translate_compare_op :: "string \<Rightarrow> cmpop \<Rightarrow> string" where
  "translate_compare_op lang op =
     (case op of
        Eq \<Rightarrow> (if lang \<in> set [''javascript'', ''typescript'', ''php''] then ''==='' else ''=='')
      | NotEq \<Rightarrow> (if lang \<in> set [''javascript'', ''typescript'', ''php''] then ''!=='' else ''!='')
      | Lt \<Rightarrow> ''<''
      | LtE \<Rightarrow> ''<=''
      | Gt \<Rightarrow> ''>''
      | GtE \<Rightarrow> ''>=''
      | _ \<Rightarrow> ''=='')"

text \<open>The \<open>print\<close>, \<open>len\<close> and \<open>str\<close> rewrites of \<open>translate_call\<close>, on the joined arguments.\<close>

definition call_print :: "string \<Rightarrow> string \<Rightarrow> string" where
  "call_print lang args =
     (if lang = ''javascript'' then ''console.log('' @ args @ '')''
      else if lang = ''typescript'' then ''console.log('' @ args @ '')''
      else if lang = ''java'' then ''System.out.println('' @ args @ '')''
      else if lang \<in> set [''c'', ''cpp''] then ''std::cout << '' @ args @ '' << std::endl''
      else if lang = ''csharp'' then ''Console.WriteLine('' @ args @ '')''
      else if lang = ''go'' then ''fmt.Println('' @ args @ '')''
      else if lang = ''rust'' then ''println!('' @ DQ @ ''{}'' @ DQ @ '', '' @ args @ '')''
      else if lang = ''php'' then ''echo '' @ args
      else if lang = ''ruby'' then ''puts '' @ args
      else if lang = ''swift'' then ''print('' @ args @ '')''
      else if lang = ''kotlin'' then ''println('' @ args @ '')''
      else if lang = ''perl'' then ''print '' @ args
      else if lang = ''lua'' then ''print('' @ args @ '')''
      else if lang = ''dart'' then ''print('' @ args @ '')''
      else if lang = ''scala'' then ''println('' @ args @ '')''
      else ''print('' @ args @ '')'')"

definition call_len :: "string \<Rightarrow> string \<Rightarrow> string" where
  "call_len lang args =
     (if lang \<in> set [''javascript'', ''typescript''] then args @ ''.length''
      else if lang = ''java'' then args @ ''.length''
      else if lang \<in> set [''c'', ''cpp''] then args @ ''.size()''
      else if lang = ''csharp'' then args @ ''.Length''
      else if lang = ''go'' then ''len('' @ args @ '')''
      else if lang = ''rust'' then args @ ''.len()''
      else if lang = ''php'' then ''count('' @ args @ '')''
      else if lang = ''ruby'' then args @ ''.length''
      else if lang = ''swift'' then args @ ''.count''
      else if lang = ''kotlin'' then args @ ''.size''
      else ''len('' @ args @ '')'')"

definition call_str :: "string \<Rightarrow> string \<Rightarrow> string" where
  "call_str lang args =
     (if lang \<in> set [''javascript'', ''typescript''] then ''String('' @ args @ '')''
      else if lang = ''java'' then ''String.valueOf('' @ args @ '')''
      else if lang \<in> set [''c'', ''cpp''] then ''std::to_string('' @ args @ '')''
      else if lang = ''csharp'' then args @ ''.ToString()''
      else if lang = ''go'' then ''fmt.Sprint('' @ args @ '')''
      else if lang = ''rust'' then args @ ''.to_string()''
      else if lang = ''php'' then ''strval('' @ args @ '')''
      else if lang = ''ruby'' then args @ ''.to_s''
      else if lang = ''swift'' then ''String('' @ args @ '')''
      else if lang = ''kotlin'' then args @ ''.toString()''
      else ''String('' @ args @ '')'')"

text \<open>
  The mutually recursive expression methods. \<open>translate_expr(None)\<close> is \<open>"null"\<close>; the only
  caller that can pass \<open>None\<close> is \<open>translate_dict\<close>, for a key.
\<close>

function translate_expr :: "string \<Rightarrow> expr \<Rightarrow> bool \<Rightarrow> string"
  and translate_call :: "string \<Rightarrow> expr \<Rightarrow> expr list \<Rightarrow> string"
  and translate_binop :: "string \<Rightarrow> expr \<Rightarrow> operator \<Rightarrow> expr \<Rightarrow> string"
  and translate_compare :: "string \<Rightarrow> expr \<Rightarrow> cmpop list \<Rightarrow> expr list \<Rightarrow> string"
  and translate_attribute :: "string \<Rightarrow> expr \<Rightarrow> string \<Rightarrow> string"
  and translate_subscript :: "string \<Rightarrow> expr \<Rightarrow> expr \<Rightarrow> string"
  and translate_list :: "string \<Rightarrow> expr list \<Rightarrow> string"
  and translate_dict :: "string \<Rightarrow> expr option list \<Rightarrow> expr list \<Rightarrow> string"
  and translate_tuple :: "string \<Rightarrow> expr list \<Rightarrow> string"
  and translate_unaryop :: "string \<Rightarrow> unaryop \<Rightarrow> expr \<Rightarrow> string"
  and translate_boolop :: "string \<Rightarrow> boolop \<Rightarrow> expr list \<Rightarrow> string"
  and translate_ifexp :: "string \<Rightarrow> expr \<Rightarrow> expr \<Rightarrow> expr \<Rightarrow> string"
where
  "translate_expr lang (Constant v) is_assignment_target = translate_constant v"
| "translate_expr lang (Name name) is_assignment_target =
     (if name \<in> set [''True'', ''False'', ''None''] then translate_constant_name name
      else if lang = ''php'' \<and> \<not> is_assignment_target then ''$'' @ name
      else name)"
| "translate_expr lang (Call func_expr args) is_assignment_target = translate_call lang func_expr args"
| "translate_expr lang (BinOp left op right) is_assignment_target = translate_binop lang left op right"
| "translate_expr lang (Compare left ops comparators) is_assignment_target =
     translate_compare lang left ops comparators"
| "translate_expr lang (Attribute v attr) is_assignment_target = translate_attribute lang v attr"
| "translate_expr lang (Subscript v slice) is_assignment_target = translate_subscript lang v slice"
| "translate_expr lang (List elts) is_assignment_target = translate_list lang elts"
| "translate_expr lang (Dict keys vals) is_assignment_target = translate_dict lang keys vals"
| "translate_expr lang (Tuple elts) is_assignment_target = translate_tuple lang elts"
| "translate_expr lang (UnaryOp uop operand) is_assignment_target = translate_unaryop lang uop operand"
| "translate_expr lang (BoolOp bop vals) is_assignment_target = translate_boolop lang bop vals"
| "translate_expr lang (IfExp test body orelse) is_assignment_target =
     translate_ifexp lang test body orelse"
| "translate_expr lang OtherExpr is_assignment_target = ''mero_expr''"
| "translate_call lang func_expr args =
     (let func_name =
            (case func_expr of
               Name n \<Rightarrow> n
             | Attribute v attr \<Rightarrow> translate_attribute lang v attr
             | _ \<Rightarrow> translate_expr lang func_expr False);
          args_txt = join '', '' (map (\<lambda>arg. translate_expr lang arg False) args)
      in if func_name = ''print'' then call_print lang args_txt
         else if func_name = ''len'' then call_len lang args_txt
         else if func_name = ''str'' then call_str lang args_txt
         else if func_name = ''range'' then
           (if lang \<in> set [''javascript'', ''typescript''] then
              (case args of
                 a # _ \<Rightarrow> ''Array.from({length: '' @ translate_expr lang a False @ ''}, (_, i) => i)''
               | [] \<Rightarrow> ''[]'')
            else if lang = ''php'' then
              (case args of
                 a # _ \<Rightarrow> ''range(0, '' @ translate_expr lang a False @ '' - 1)''
               | [] \<Rightarrow> ''[]'')
            else if lang = ''ruby'' then
              (case args of
                 a # _ \<Rightarrow> ''(0...'' @ translate_expr lang a False @ '')''
               | [] \<Rightarrow> ''(0...0)'')
            else ''range('' @ args_txt @ '')'')
         else func_name @ ''('' @ args_txt @ '')'')"
| "translate_binop lang left op right =
     (let l = translate_expr lang left False;
          r = translate_expr lang right False;
          is_string_concat =
            (op = Add \<and>
             ((case left of Constant (CStr _) \<Rightarrow> True | _ \<Rightarrow> False) \<or>
              (case right of Constant (CStr _) \<Rightarrow> True | _ \<Rightarrow> False)))
      in if is_string_concat \<and> op = Add then
           (if lang = ''php'' then l @ '' . '' @ r else l @ '' + '' @ r)
         else l @ '' '' @ translate_operator lang op @ '' '' @ r)"
| "translate_compare lang left ops comparators =
     join '' ''
       (translate_expr lang left False #
        map (\<lambda>(op, comparator).
               translate_compare_op lang op @ '' '' @ translate_expr lang comparator False)
          (zip ops comparators))"
| "translate_attribute lang v attr =
     (let val = translate_expr lang v False
      in if lang = ''php'' \<and> val = ''self'' then ''$this->'' @ attr
         else if val = ''self'' then
           (if lang \<in> set [''javascript'', ''typescript'', ''java'', ''csharp'', ''kotlin'',
                          ''dart'', ''scala'']
            then ''this.'' @ attr
            else ''self.'' @ attr)
         else val @ ''.'' @ attr)"
| "translate_subscript lang v slice =
     translate_expr lang v False @ ''['' @ translate_expr lang slice False @ '']''"
| "translate_list lang elts =
     (let elements = join '', '' (map (\<lambda>el. translate_expr lang el False) elts)
      in if lang = ''php'' then ''array('' @ elements @ '')'' else ''['' @ elements @ '']'')"
| "translate_dict lang keys vals =
     (let pairs =
            map (\<lambda>(key, v).
                   (let key_str = (case key of None \<Rightarrow> ''null'' | Some k \<Rightarrow> translate_expr lang k False);
                        value_str = translate_expr lang v False
                    in if lang = ''php'' then key_str @ '' => '' @ value_str
                       else key_str @ '': '' @ value_str))
              (zip keys vals)
      in if lang = ''php'' then ''array('' @ join '', '' pairs @ '')''
         else ''{'' @ join '', '' pairs @ ''}'')"
| "translate_tuple lang elts =
     (let elements = join '', '' (map (\<lambda>el. translate_expr lang el False) elts)
      in if lang = ''php'' then ''array('' @ elements @ '')''
         else if lang \<in> set [''javascript'', ''typescript''] then ''['' @ elements @ '']''
         else ''('' @ elements @ '')'')"
| "translate_unaryop lang uop operand =
     (let operand_txt = translate_expr lang operand False
      in case uop of
           NotOp \<Rightarrow> ''!'' @ operand_txt
         | UAdd \<Rightarrow> ''+'' @ operand_txt
         | USub \<Rightarrow> ''-'' @ operand_txt
         | Invert \<Rightarrow> operand_txt)"
| "translate_boolop lang bop vals =
     (let vs = map (\<lambda>v. translate_expr lang v False) vals
      in case bop of
           And \<Rightarrow> join '' && '' vs
         | Or \<Rightarrow> join '' || '' vs)"
| "translate_ifexp lang test body orelse =
     translate_expr lang test False @ '' ? '' @ translate_expr lang body False @ '' : ''
       @ translate_expr lang orelse False"
  by pat_completeness auto

lemma size_list_mem: "x \<in> set xs \<Longrightarrow> f x < Suc (size_list f xs)"
  by (induction xs) auto

lemma size_option_list_mem: "Some x \<in> set ks \<Longrightarrow> size x < size_list (size_option size) ks"
  by (induction ks) auto

lemma zip_memD: "(a, b) \<in> set (zip xs ys) \<Longrightarrow> a \<in> set xs \<and> b \<in> set ys"
  by (auto dest: set_zip_leftD set_zip_rightD)

termination translate_expr
  apply (relation "measure (\<lambda>x. case x of
      Inl (Inl (Inl (lang, e, b))) \<Rightarrow> 2 * size e + 1
    | Inl (Inl (Inr (Inl (lang, f, args)))) \<Rightarrow> 2 * (size f + size_list size args) + 2
    | Inl (Inl (Inr (Inr (lang, l, op, r)))) \<Rightarrow> 2 * (size l + size r) + 2
    | Inl (Inr (Inl (lang, l, ops, cs))) \<Rightarrow> 2 * (size l + size_list size cs) + 2
    | Inl (Inr (Inr (Inl (lang, v, attr)))) \<Rightarrow> 2 * size v + 2
    | Inl (Inr (Inr (Inr (lang, v, s)))) \<Rightarrow> 2 * (size v + size s) + 2
    | Inr (Inl (Inl (lang, elts))) \<Rightarrow> 2 * size_list size elts + 2
    | Inr (Inl (Inr (Inl (lang, keys, vals)))) \<Rightarrow>
        2 * (size_list (size_option size) keys + size_list size vals) + 2
    | Inr (Inl (Inr (Inr (lang, elts)))) \<Rightarrow> 2 * size_list size elts + 2
    | Inr (Inr (Inl (lang, uop, operand))) \<Rightarrow> 2 * size operand + 2
    | Inr (Inr (Inr (Inl (lang, bop, vals)))) \<Rightarrow> 2 * size_list size vals + 2
    | Inr (Inr (Inr (Inr (lang, t, b, e)))) \<Rightarrow> 2 * (size t + size b + size e) + 2)")
   apply simp
  apply (auto dest!: zip_memD size_option_list_mem
      simp: less_Suc_eq_le dest: size_list_mem [where f = size])
  done

section \<open>The translator object and statement translation\<close>

text \<open>
  The attributes of \<open>PythonToTargetTranslator\<close>. Methods that assign to an attribute take
  the object and return it updated, next to their result.
\<close>

record translator =
  target_lang :: string
  indent_level :: int
  mero_translator :: bool
  variables :: "string set"

text \<open>The constructor \<open>__init__\<close>.\<close>

definition PythonToTargetTranslator :: "string \<Rightarrow> translator" where
  "PythonToTargetTranslator lang =
     \<lparr>target_lang = lower lang, indent_level = 0, mero_translator = True, variables = {}\<rparr>"

definition get_indent :: "translator \<Rightarrow> string" where
  "get_indent self = times4 (indent_level self)"

definition translate_parameters :: "translator \<Rightarrow> string list \<Rightarrow> string" where
  "translate_parameters self args =
     join '', ''
       (map (\<lambda>arg. if target_lang self = ''php'' then ''$'' @ arg
                   else if target_lang self = ''perl'' then ''$'' @ arg
                   else arg)
          (filter (\<lambda>arg. arg \<noteq> ''self'') args))"

text \<open>
  \<open>translate_assignment\<close> records a plain-name target in \<open>self.variables\<close> and then emits
  the assignment; the set is not read. \<open>assignment_text\<close> is the chain of \<open>return\<close>
  statements that ends the method.
\<close>

definition assignment_text :: "string \<Rightarrow> string \<Rightarrow> string \<Rightarrow> string \<Rightarrow> string" where
  "assignment_text lang ind target v =
     (if lang = ''javascript'' then ind @ ''let '' @ target @ '' = '' @ v @ '';''
      else if lang = ''typescript'' then ind @ ''let '' @ target @ '' = '' @ v @ '';''
      else if lang = ''java'' then ind @ ''var '' @ target @ '' = '' @ v @ '';''
      else if lang \<in> set [''c'', ''cpp''] then ind @ ''auto '' @ target @ '' = '' @ v @ '';''
      else if lang = ''csharp'' then ind @ ''var '' @ target @ '' = '' @ v @ '';''
      else if lang = ''go'' then ind @ target @ '' := '' @ v
      else if lang = ''rust'' then ind @ ''let mut '' @ target @ '' = '' @ v @ '';''
      else if lang = ''php'' then
        ind @ (if \<not> startswith target ''$'' then ''$'' @ target else target) @ '' = '' @ v @ '';''
      else if lang = ''ruby'' then ind @ target @ '' = '' @ v
      else if lang = ''swift'' then ind @ ''var '' @ target @ '' = '' @ v
      else if lang = ''kotlin'' then ind @ ''var '' @ target @ '' = '' @ v
      else if lang = ''perl'' then ind @ ''my $'' @ target @ '' = '' @ v @ '';''
      else if lang = ''lua'' then ind @ ''local '' @ target @ '' = '' @ v
      else if lang = ''dart'' then ind @ ''var '' @ target @ '' = '' @ v @ '';''
      else if lang = ''scala'' then ind @ ''val '' @ target @ '' = '' @ v
      else ind @ target @ '' = '' @ v @ '';'')"

definition translate_assignment :: "translator \<Rightarrow> expr \<Rightarrow> expr \<Rightarrow> string \<times> translator" where
  "translate_assignment self0 target0 val =
     (let target = translate_expr (target_lang self0) target0 True;
          v = translate_expr (target_lang self0) val False;
          self = (case target0 of
                    Name ident \<Rightarrow> self0\<lparr>variables := insert ident (variables self0)\<rparr>
                  | _ \<Rightarrow> self0)
      in (assignment_text (target_lang self) (get_indent self) target v, self))"

definition translate_aug_assignment :: "translator \<Rightarrow> expr \<Rightarrow> operator \<Rightarrow> expr \<Rightarrow> string" where
  "translate_aug_assignment self target0 aop val =
     (let target = translate_expr (target_lang self) target0 False;
          v = translate_expr (target_lang self) val False;
          op = translate_operator (target_lang self) aop
      in if target_lang self = ''php'' then
           get_indent self @ (if \<not> startswith target ''$'' then ''$'' @ target else target)
             @ '' '' @ op @ ''= '' @ v @ '';''
         else get_indent self @ target @ '' '' @ op @ ''= '' @ v @ '';'')"

definition translate_return :: "translator \<Rightarrow> expr option \<Rightarrow> string" where
  "translate_return self ret_value =
     (let v = (case ret_value of Some e \<Rightarrow> translate_expr (target_lang self) e False | None \<Rightarrow> [])
      in get_indent self @ ''return'' @ (if v \<noteq> [] then '' '' @ v else []) @ '';'')"

definition translate_expression_stmt :: "translator \<Rightarrow> expr \<Rightarrow> string" where
  "translate_expression_stmt self val =
     (let e = translate_expr (target_lang self) val False
      in if target_lang self \<in> set [''ruby'', ''lua''] then get_indent self @ e
         else get_indent self @ e @ '';'')"

definition translate_pass :: "translator \<Rightarrow> string" where
  "translate_pass self =
     (if target_lang self \<in> set [''ruby''] then []
      else if target_lang self = ''python'' then get_indent self @ ''pass''
      else get_indent self @ '';'')"

text \<open>
  The text each block statement returns once its body has been translated; \<open>ind\<close> is
  \<open>get_indent()\<close> at that point, after the indentation level has been decremented again.
\<close>

definition function_text :: "string \<Rightarrow> string \<Rightarrow> string \<Rightarrow> string \<Rightarrow> string \<Rightarrow> string" where
  "function_text lang ind func_name params body =
     (let brace = (\<lambda>kw. ind @ kw @ func_name @ ''('' @ params @ '') {'' @ NL @ body @ NL @ ind @ ''}'')
      in if lang = ''javascript'' then brace ''function ''
         else if lang = ''typescript'' then brace ''function ''
         else if lang = ''java'' then brace ''public static void ''
         else if lang \<in> set [''c'', ''cpp''] then brace ''void ''
         else if lang = ''csharp'' then brace ''public static void ''
         else if lang = ''go'' then brace ''func ''
         else if lang = ''rust'' then brace ''fn ''
         else if lang = ''php'' then brace ''function ''
         else if lang = ''ruby'' then
           ind @ ''def '' @ func_name @ ''('' @ params @ '')'' @ NL @ body @ NL @ ind @ ''end''
         else if lang = ''swift'' then brace ''func ''
         else if lang = ''kotlin'' then brace ''fun ''
         else if lang = ''perl'' then
           ind @ ''sub '' @ func_name @ '' {'' @ NL @ ind @ ''    my ('' @ params @ '') = @_;'' @ NL
             @ body @ NL @ ind @ ''}''
         else if lang = ''lua'' then
           ind @ ''function '' @ func_name @ ''('' @ params @ '')'' @ NL @ body @ NL @ ind @ ''end''
         else if lang = ''dart'' then brace []
         else if lang = ''scala'' then
           ind @ ''def '' @ func_name @ ''('' @ params @ '') = {'' @ NL @ body @ NL @ ind @ ''}''
         else brace ''function '')"

definition class_text :: "string \<Rightarrow> string \<Rightarrow> string \<Rightarrow> string \<Rightarrow> string" where
  "class_text lang ind class_name body =
     (let brace = (\<lambda>kw. ind @ kw @ class_name @ '' {'' @ NL @ body @ NL @ ind @ ''}'')
      in if lang \<in> set [''javascript'', ''typescript''] then brace ''class ''
         else if lang = ''java'' then brace ''public class ''
         else if lang \<in> set [''c'', ''cpp''] then
           ind @ ''class '' @ class_name @ '' {'' @ NL @ ''public:'' @ NL @ body @ NL @ ind @ ''};''
         else if lang = ''csharp'' then brace ''public class ''
         else if lang = ''php'' then brace ''class ''
         else if lang = ''ruby'' then ind @ ''class '' @ class_name @ NL @ body @ NL @ ind @ ''end''
         else if lang = ''swift'' then brace ''class ''
         else if lang = ''kotlin'' then brace ''class ''
         else if lang = ''scala'' then brace ''class ''
         else brace ''class '')"

definition if_text :: "string \<Rightarrow> string \<Rightarrow> string \<Rightarrow> string \<Rightarrow> string" where
  "if_text lang ind condition if_body =
     (if lang \<in> set [''javascript'', ''typescript'', ''java'', ''c'', ''cpp'', ''csharp'', ''php'',
                      ''go'', ''rust'', ''swift'', ''kotlin'', ''dart'', ''scala'', ''perl'']
      then ind @ ''if ('' @ condition @ '') {'' @ NL @ if_body @ NL @ ind @ ''}''
      else if lang \<in> set [''ruby'', ''lua'']
      then ind @ ''if '' @ condition @ '' then'' @ NL @ if_body @ NL @ ind @ ''end''
      else ind @ ''if ('' @ condition @ '') {'' @ NL @ if_body @ NL @ ind @ ''}'')"

definition else_text :: "string \<Rightarrow> string \<Rightarrow> string \<Rightarrow> string \<Rightarrow> string" where
  "else_text lang ind result else_body =
     (if lang \<in> set [''ruby'', ''lua'']
      then rsplit1_head (CHR 0x0A) result @ NL @ ind @ ''else'' @ NL @ else_body @ NL @ ind @ ''end''
      else result @ '' else {'' @ NL @ else_body @ NL @ ind @ ''}'')"

definition for_text :: "string \<Rightarrow> string \<Rightarrow> string \<Rightarrow> string \<Rightarrow> string \<Rightarrow> string" where
  "for_text lang ind var iterable body =
     (let block = (\<lambda>head. ind @ head @ '' {'' @ NL @ body @ NL @ ind @ ''}'')
      in if lang = ''javascript'' then block (''for (let '' @ var @ '' of '' @ iterable @ '')'')
         else if lang = ''typescript'' then block (''for (let '' @ var @ '' of '' @ iterable @ '')'')
         else if lang = ''java'' then block (''for (var '' @ var @ '' : '' @ iterable @ '')'')
         else if lang \<in> set [''c'', ''cpp''] then
           block (''for (auto '' @ var @ '' : '' @ iterable @ '')'')
         else if lang = ''csharp'' then block (''foreach (var '' @ var @ '' in '' @ iterable @ '')'')
         else if lang = ''go'' then block (''for _, '' @ var @ '' := range '' @ iterable)
         else if lang = ''rust'' then block (''for '' @ var @ '' in '' @ iterable)
         else if lang = ''php'' then
           block (''foreach ('' @ iterable @ '' as ''
                    @ (if \<not> startswith var ''$'' then ''$'' @ var else var) @ '')'')
         else if lang = ''ruby'' then
           ind @ iterable @ ''.each do |'' @ var @ ''|'' @ NL @ body @ NL @ ind @ ''end''
         else if lang = ''swift'' then block (''for '' @ var @ '' in '' @ iterable)
         else if lang = ''kotlin'' then block (''for ('' @ var @ '' in '' @ iterable @ '')'')
         else if lang = ''perl'' then
           block (''foreach my $'' @ var @ '' (@'' @ ''{'' @ iterable @ ''})'')
         else if lang = ''lua'' then
           ind @ ''for _, '' @ var @ '' in pairs('' @ iterable @ '') do'' @ NL @ body @ NL @ ind @ ''end''
         else if lang = ''dart'' then block (''for (var '' @ var @ '' in '' @ iterable @ '')'')
         else if lang = ''scala'' then block (''for ('' @ var @ '' <- '' @ iterable @ '')'')
         else block (''for ('' @ var @ '' in '' @ iterable @ '')''))"

definition while_text :: "string \<Rightarrow> string \<Rightarrow> string \<Rightarrow> string \<Rightarrow> string" where
  "while_text lang ind condition body =
     (if lang = ''go'' then ind @ ''for '' @ condition @ '' {'' @ NL @ body @ NL @ ind @ ''}''
      else if lang \<in> set [''ruby'', ''lua'']
      then ind @ ''while '' @ condition @ '' do'' @ NL @ body @ NL @ ind @ ''end''
      else ind @ ''while ('' @ condition @ '') {'' @ NL @ body @ NL @ ind @ ''}'')"

text \<open>
  The mutually recursive statement methods. Each block method raises
  \<open>self.indent_level\<close> by one, translates its body, and lowers the level by one; the
  loop of \<open>translate_body\<close> is \<open>translate_body_loop\<close>, which keeps the statements whose
  translation is not blank.
\<close>

function translate_statement :: "translator \<Rightarrow> stmt \<Rightarrow> string \<times> translator"
  and translate_function :: "translator \<Rightarrow> string \<Rightarrow> string list \<Rightarrow> stmt list \<Rightarrow> string \<times> translator"
  and translate_class :: "translator \<Rightarrow> string \<Rightarrow> stmt list \<Rightarrow> string \<times> translator"
  and translate_if :: "translator \<Rightarrow> expr \<Rightarrow> stmt list \<Rightarrow> stmt list \<Rightarrow> string \<times> translator"
  and translate_for :: "translator \<Rightarrow> expr \<Rightarrow> expr \<Rightarrow> stmt list \<Rightarrow> string \<times> translator"
  and translate_while :: "translator \<Rightarrow> expr \<Rightarrow> stmt list \<Rightarrow> string \<times> translator"
  and translate_body :: "translator \<Rightarrow> stmt list \<Rightarrow> string \<times> translator"
  and translate_body_loop :: "translator \<Rightarrow> stmt list \<Rightarrow> string list \<times> translator"
where
  "translate_statement self (FunctionDef name args body) = translate_function self name args body"
| "translate_statement self (ClassDef name body) = translate_class self name body"
| "translate_statement self (Assign target0 targets val) = translate_assignment self target0 val"
| "translate_statement self (AugAssign target aop val) =
     (translate_aug_assignment self target aop val, self)"
| "translate_statement self (IfStmt test body orelse) = translate_if self test body orelse"
| "translate_statement self (For target iter body) = translate_for self target iter body"
| "translate_statement self (While test body) = translate_while self test body"
| "translate_statement self (Return ret_value) = (translate_return self ret_value, self)"
| "translate_statement self (Expr val) = (translate_expression_stmt self val, self)"
| "translate_statement self Import = ([], self)"
| "translate_statement self ImportFrom = ([], self)"
| "translate_statement self Pass = (translate_pass self, self)"
| "translate_statement self Break = (get_indent self @ ''break;'', self)"
| "translate_statement self Continue = (get_indent self @ ''continue;'', self)"
| "translate_statement self OtherStmt = ([], self)"
| "translate_function self name args body =
     (let func_name =
            (if name = ''__init__'' then
               (if target_lang self = ''php'' then ''__construct''
                else if target_lang self \<in> set [''javascript'', ''typescript''] then ''constructor''
                else name)
             else name);
          params = translate_parameters self args
      in case translate_body (self\<lparr>indent_level := indent_level self + 1\<rparr>) body of
           (body_txt, self1) \<Rightarrow>
             (let self2 = self1\<lparr>indent_level := indent_level self1 - 1\<rparr>;
                  body_txt =
                    (if strip body_txt = [] then
                       get_indent self2 @ ''    ''
                         @ (if target_lang self2 \<in> set [''python'', ''ruby''] then ''pass''
                            else ''mero_empty'')
                     else body_txt)
              in (function_text (target_lang self2) (get_indent self2) func_name params body_txt,
                  self2)))"
| "translate_class self name body =
     (case translate_body (self\<lparr>indent_level := indent_level self + 1\<rparr>) body of
        (body_txt, self1) \<Rightarrow>
          (let self2 = self1\<lparr>indent_level := indent_level self1 - 1\<rparr>
           in (class_text (target_lang self2) (get_indent self2) name body_txt, self2)))"
| "translate_if self test body orelse =
     (let condition = translate_expr (target_lang self) test False
      in case translate_body (self\<lparr>indent_level := indent_level self + 1\<rparr>) body of
           (if_body, self1) \<Rightarrow>
             (let self2 = self1\<lparr>indent_level := indent_level self1 - 1\<rparr>;
                  result = if_text (target_lang self2) (get_indent self2) condition if_body
              in if orelse \<noteq> [] then
                   (case translate_body (self2\<lparr>indent_level := indent_level self2 + 1\<rparr>) orelse of
                      (else_body, self3) \<Rightarrow>
                        (let self4 = self3\<lparr>indent_level := indent_level self3 - 1\<rparr>
                         in (else_text (target_lang self4) (get_indent self4) result else_body,
                             self4)))
                 else (result, self2)))"
| "translate_for self target iter body =
     (let var = translate_expr (target_lang self) target True;
          iterable = translate_expr (target_lang self) iter False
      in case translate_body (self\<lparr>indent_level := indent_level self + 1\<rparr>) body of
           (body_txt, self1) \<Rightarrow>
             (let self2 = self1\<lparr>indent_level := indent_level self1 - 1\<rparr>
              in (for_text (target_lang self2) (get_indent self2) var iterable body_txt, self2)))"
| "translate_while self test body =
     (let condition = translate_expr (target_lang self) test False
      in case translate_body (self\<lparr>indent_level := indent_level self + 1\<rparr>) body of
           (body_txt, self1) \<Rightarrow>
             (let self2 = self1\<lparr>indent_level := indent_level self1 - 1\<rparr>
              in (while_text (target_lang self2) (get_indent self2) condition body_txt, self2)))"
| "translate_body self body =
     (case translate_body_loop self body of
        (lines, self1) \<Rightarrow>
          (if lines = [] then get_indent self1 @ ''    '' else join NL lines, self1))"
| "translate_body_loop self [] = ([], self)"
| "translate_body_loop self (stmt # rest) =
     (case translate_statement self stmt of
        (translated, self1) \<Rightarrow>
          (case translate_body_loop self1 rest of
             (lines, self2) \<Rightarrow>
               ((if translated \<noteq> [] \<and> strip translated \<noteq> [] then [translated] else []) @ lines,
                self2)))"
  by pat_completeness auto

termination translate_statement
  apply (relation "measure (\<lambda>x. case x of
      Inl (Inl (Inl (self, s))) \<Rightarrow> 2 * size s + 1
    | Inl (Inl (Inr (self, name, args, body))) \<Rightarrow> 2 * size_list size body + 2
    | Inl (Inr (Inl (self, name, body))) \<Rightarrow> 2 * size_list size body + 2
    | Inl (Inr (Inr (self, test, body, orelse))) \<Rightarrow>
        2 * (size_list size body + size_list size orelse) + 2
    | Inr (Inl (Inl (self, target, iter, body))) \<Rightarrow> 2 * size_list size body + 2
    | Inr (Inl (Inr (self, test, body))) \<Rightarrow> 2 * size_list size body + 2
    | Inr (Inr (Inl (self, body))) \<Rightarrow> 2 * size_list size body + 1
    | Inr (Inr (Inr (self, body))) \<Rightarrow> 2 * size_list size body)")
   apply simp
  apply auto
  done

text \<open>
  The equations of the methods that take no constructor pattern unfold everywhere; they
  are used where a proof names them.
\<close>

declare translate_call.simps [simp del] translate_binop.simps [simp del]
  translate_compare.simps [simp del] translate_attribute.simps [simp del]
  translate_subscript.simps [simp del] translate_list.simps [simp del]
  translate_dict.simps [simp del] translate_tuple.simps [simp del]
  translate_unaryop.simps [simp del] translate_boolop.simps [simp del]
  translate_ifexp.simps [simp del]

declare translate_function.simps [simp del] translate_class.simps [simp del]
  translate_if.simps [simp del] translate_for.simps [simp del] translate_while.simps [simp del]
  translate_body.simps [simp del]

section \<open>Whole-program translation\<close>

text \<open>
  The loop of \<open>translate_module\<close>: the translations of the import statements and of the
  other statements, each kept when it is not the empty string.
\<close>

fun translate_module_loop :: "translator \<Rightarrow> stmt list \<Rightarrow> string list \<times> string list \<times> translator" where
  "translate_module_loop self [] = ([], [], self)"
| "translate_module_loop self (stmt # rest) =
     (case translate_statement self stmt of
        (code, self1) \<Rightarrow>
          (case translate_module_loop self1 rest of
             (imports, main_code, self2) \<Rightarrow>
               (if stmt = Import \<or> stmt = ImportFrom
                then ((if code \<noteq> [] then [code] else []) @ imports, main_code, self2)
                else (imports, (if code \<noteq> [] then [code] else []) @ main_code, self2))))"

definition translate_module :: "translator \<Rightarrow> stmt list \<Rightarrow> string \<times> translator" where
  "translate_module self body =
     (case translate_module_loop self body of
        (imports, main_code, self1) \<Rightarrow>
          (if imports \<noteq> [] \<and> target_lang self1 \<notin> set [''php'']
           then join NL imports @ NL @ NL @ join (NL @ NL) main_code
           else join (NL @ NL) main_code,
           self1))"

definition indent_code :: "string \<Rightarrow> int \<Rightarrow> string" where
  "indent_code code level =
     join NL (map (\<lambda>line. if strip line \<noteq> [] then times4 level @ line else [])
                (split (CHR 0x0A) code))"

text \<open>
  \<open>add_language_wrappers\<close>. For Java the translated text is cut into lines again: a line
  that starts (after stripping) with \<open>public static void\<close>, \<open>public class\<close> or \<open>class \<close>
  is a class member, every other non-blank line that starts with neither brace goes to
  the body of \<open>main\<close>.
\<close>

definition is_member_line :: "string \<Rightarrow> bool" where
  "is_member_line stripped =
     (startswith stripped ''public static void'' \<or> startswith stripped ''public class''
      \<or> startswith stripped ''class '')"

definition is_main_line :: "string \<Rightarrow> bool" where
  "is_main_line stripped =
     (\<not> is_member_line stripped \<and> stripped \<noteq> [] \<and> \<not> startswith stripped ''}''
      \<and> \<not> startswith stripped ''{'')"

definition add_language_wrappers :: "translator \<Rightarrow> string \<Rightarrow> string" where
  "add_language_wrappers self code =
     (if target_lang self = ''java'' then
        (let lines = split (CHR 0x0A) (strip code);
             class_members = filter (\<lambda>line. is_member_line (strip line)) lines;
             main_calls =
               map (\<lambda>line. ''        '' @ strip line)
                 (filter (\<lambda>line. is_main_line (strip line)) lines);
             class_body = join NL class_members;
             main_body = join NL main_calls
         in ''public class MeroTranslated {'' @ NL @ class_body @ NL @ NL
              @ ''    public static void main(String[] args) {'' @ NL @ main_body @ NL
              @ ''    }'' @ NL @ ''}'')
      else if target_lang self \<in> set [''c'', ''cpp''] then
        ''#include <iostream>'' @ NL @ ''using namespace std;'' @ NL @ NL @ code
      else if target_lang self = ''go'' then
        ''package main'' @ NL @ ''import '' @ DQ @ ''fmt'' @ DQ @ NL @ NL @ ''func main() {'' @ NL
          @ indent_code code 1 @ NL @ ''}''
      else if target_lang self = ''php'' then ''<?php'' @ NL @ code @ NL @ ''?>''
      else if target_lang self = ''rust'' then
        ''fn main() {'' @ NL @ indent_code code 1 @ NL @ ''}''
      else code)"

definition fallback_translate :: "string \<Rightarrow> string" where
  "fallback_translate code = code"

text \<open>
  \<open>translate\<close>. The parser \<open>ast.parse\<close> is outside the translator: it is the parameter
  \<open>parse\<close>, which gives the body of the module, or \<open>None\<close> where \<open>ast.parse\<close> raises
  \<open>SyntaxError\<close>. No method of the translator raises on a tree, so the result is always a
  text.
\<close>

definition translate :: "(string \<Rightarrow> stmt list option) \<Rightarrow> translator \<Rightarrow> string \<Rightarrow> string \<times> translator" where
  "translate parse self python_code =
     (case parse python_code of
        None \<Rightarrow> (fallback_translate python_code, self)
      | Some tree \<Rightarrow>
          (case translate_module self tree of
             (translated_code, self1) \<Rightarrow> (add_language_wrappers self1 translated_code, self1)))"

text \<open>\<open>CodeTranslator.smart_translate\<close> and its table of language names.\<close>

definition lang_map :: "(string \<times> string) list" where
  "lang_map =
     [(''Python'', ''python''), (''Java'', ''java''), (''C'', ''c''), (''C++'', ''cpp''),
      (''C#'', ''csharp''), (''JavaScript'', ''javascript''), (''TypeScript'', ''typescript''),
      (''Go'', ''go''), (''Rust'', ''rust''), (''Ruby'', ''ruby''), (''PHP'', ''php''),
      (''Swift'', ''swift''), (''Kotlin'', ''kotlin''), (''Perl'', ''perl''), (''Lua'', ''lua''),
      (''Dart'', ''dart''), (''Scala'', ''scala'')]"

definition lang_key :: "string \<Rightarrow> string" where
  "lang_key name = (case map_of lang_map name of Some k \<Rightarrow> k | None \<Rightarrow> lower name)"

definition smart_translate :: "(string \<Rightarrow> stmt list option) \<Rightarrow> string \<Rightarrow> string \<Rightarrow> string \<Rightarrow> string" where
  "smart_translate parse code from_lang to_lang =
     (let from_lang_key = lang_key from_lang;
          to_lang_key = lang_key to_lang
      in if from_lang_key = ''python''
         then fst (translate parse (PythonToTargetTranslator to_lang_key) code)
         else code)"

section \<open>The translator's state across statements\<close>

text \<open>
  The names \<open>translate_assignment\<close> adds to \<open>self.variables\<close> while a statement is
  translated: the plain-name first targets of the assignments anywhere inside it.
\<close>

fun assigned_names :: "stmt \<Rightarrow> string set" where
  "assigned_names (FunctionDef name args body) = (\<Union>s\<in>set body. assigned_names s)"
| "assigned_names (ClassDef name body) = (\<Union>s\<in>set body. assigned_names s)"
| "assigned_names (Assign target0 targets val) =
     (case target0 of Name ident \<Rightarrow> {ident} | _ \<Rightarrow> {})"
| "assigned_names (IfStmt test body orelse) =
     (\<Union>s\<in>set body. assigned_names s) \<union> (\<Union>s\<in>set orelse. assigned_names s)"
| "assigned_names (For target iter body) = (\<Union>s\<in>set body. assigned_names s)"
| "assigned_names (While test body) = (\<Union>s\<in>set body. assigned_names s)"
| "assigned_names _ = {}"

text \<open>
  The target languages some branch of the translator tests for. Any other value of
  \<open>self.target_lang\<close> takes the final \<open>else\<close> of every chain. \<open>same_lang\<close>: two target
  languages are equal, or neither is tested for anywhere.
\<close>

definition known_langs :: "string list" where
  "known_langs =
     [''python'', ''java'', ''c'', ''cpp'', ''csharp'', ''javascript'', ''typescript'', ''go'',
      ''rust'', ''ruby'', ''php'', ''swift'', ''kotlin'', ''perl'', ''lua'', ''dart'', ''scala'']"

definition same_lang :: "string \<Rightarrow> string \<Rightarrow> bool" where
  "same_lang a b = (a = b \<or> (a \<notin> set known_langs \<and> b \<notin> set known_langs))"

text \<open>
  \<open>state_after self names self'\<close>: the object \<open>self'\<close> is \<open>self\<close> with \<open>names\<close> added to
  its variable set and nothing else changed. \<open>same_context\<close>: two objects have the same
  indentation level, and target languages that are equal or both not tested for.
\<close>

definition state_after :: "translator \<Rightarrow> string set \<Rightarrow> translator \<Rightarrow> bool" where
  "state_after self names self' =
     (target_lang self' = target_lang self \<and> indent_level self' = indent_level self \<and>
      mero_translator self' = mero_translator self \<and> variables self' = variables self \<union> names)"

definition same_context :: "translator \<Rightarrow> translator \<Rightarrow> bool" where
  "same_context a b =
     (same_lang (target_lang a) (target_lang b) \<and> indent_level a = indent_level b)"

section \<open>Trees as the parser builds them\<close>

text \<open>
  \<open>wf_expr\<close> holds of the expressions \<open>ast.parse\<close> can build: an identifier is not the
  empty string, a boolean operation has an operand, and the printed form of a float,
  complex, bytes or Ellipsis constant is not empty.
\<close>

fun wf_expr :: "expr \<Rightarrow> bool" where
  "wf_expr (Constant v) = (case v of COther s \<Rightarrow> s \<noteq> [] | _ \<Rightarrow> True)"
| "wf_expr (Name ident) = (ident \<noteq> [])"
| "wf_expr (Call func_expr args) = (wf_expr func_expr \<and> (\<forall>a\<in>set args. wf_expr a))"
| "wf_expr (BinOp left op right) = (wf_expr left \<and> wf_expr right)"
| "wf_expr (Compare left ops comparators) = (wf_expr left \<and> (\<forall>c\<in>set comparators. wf_expr c))"
| "wf_expr (Attribute v attr) = wf_expr v"
| "wf_expr (Subscript v slice) = (wf_expr v \<and> wf_expr slice)"
| "wf_expr (List elts) = (\<forall>e\<in>set elts. wf_expr e)"
| "wf_expr (Dict keys vals) =
     ((\<forall>k\<in>set keys. case k of None \<Rightarrow> True | Some e \<Rightarrow> wf_expr e) \<and> (\<forall>v\<in>set vals. wf_expr v))"
| "wf_expr (Tuple elts) = (\<forall>e\<in>set elts. wf_expr e)"
| "wf_expr (UnaryOp uop operand) = wf_expr operand"
| "wf_expr (BoolOp bop vals) = (vals \<noteq> [] \<and> (\<forall>v\<in>set vals. wf_expr v))"
| "wf_expr (IfExp test body orelse) = (wf_expr test \<and> wf_expr body \<and> wf_expr orelse)"
| "wf_expr OtherExpr = True"

section \<open>Operators and expressions outside the recognised sets\<close>

text \<open>
  C6. An expression node of a class \<open>translate_expr\<close> has no branch for is translated to
  the fixed placeholder \<open>mero_expr\<close>, for every target language and either value of the
  assignment-target flag. The function is total: no input makes it fail.
\<close>

theorem unknown_expr_placeholder:
  "translate_expr lang OtherExpr is_assignment_target = ''mero_expr''"
  by simp

text \<open>
  C10. A binary operator outside \<open>+ - * / % ** //\<close> is printed as \<open>+\<close>, and a
  comparison operator outside \<open>== != < <= > >=\<close> is printed as \<open>==\<close>, whatever the
  target language: the binary operation and the comparison are emitted with the
  substituted operator between their translated operands.
\<close>

theorem unrecognized_operators_rewritten:
  "(op \<notin> {Add, Sub, Mult, Div, Mod, PowOp, FloorDiv} \<longrightarrow>
      translate_operator lang op = ''+'' \<and>
      translate_expr lang (BinOp l op r) b =
        translate_expr lang l False @ '' + '' @ translate_expr lang r False) \<and>
   (cop \<notin> {Eq, NotEq, Lt, LtE, Gt, GtE} \<longrightarrow>
      translate_compare_op lang cop = ''=='' \<and>
      translate_expr lang (Compare l [cop] [r]) b =
        translate_expr lang l False @ '' == '' @ translate_expr lang r False)"
proof (intro conjI impI)
  assume "op \<notin> {Add, Sub, Mult, Div, Mod, PowOp, FloorDiv}"
  then show plus: "translate_operator lang op = ''+''"
    by (cases op) (simp_all add: translate_operator_def)
  from \<open>op \<notin> {Add, Sub, Mult, Div, Mod, PowOp, FloorDiv}\<close> have "op \<noteq> Add"
    by simp
  with plus show "translate_expr lang (BinOp l op r) b =
      translate_expr lang l False @ '' + '' @ translate_expr lang r False"
    by (simp add: translate_binop.simps)
next
  assume "cop \<notin> {Eq, NotEq, Lt, LtE, Gt, GtE}"
  then show eq: "translate_compare_op lang cop = ''==''"
    by (cases cop) (simp_all add: translate_compare_op_def)
  then show "translate_expr lang (Compare l [cop] [r]) b =
      translate_expr lang l False @ '' == '' @ translate_expr lang r False"
    by (simp add: translate_compare.simps)
qed

theorem unrecognized_operators_rewritten_witness:
  "BitOr \<notin> {Add, Sub, Mult, Div, Mod, PowOp, FloorDiv} \<and>
   translate_operator ''php'' BitOr = ''+'' \<and>
   translate_expr ''php'' (BinOp (Name ''a'') BitOr (Name ''b'')) False = ''$a + $b'' \<and>
   In \<notin> {Eq, NotEq, Lt, LtE, Gt, GtE} \<and>
   translate_compare_op ''php'' In = ''=='' \<and>
   translate_expr ''php'' (Compare (Name ''a'') [In] [Name ''b'']) False = ''$a == $b''"
  using unrecognized_operators_rewritten [of BitOr "''php''" "Name ''a''" "Name ''b''" False In]
  by simp

section \<open>Addition and string concatenation\<close>

text \<open>
  C8. The claim asks for the arithmetic \<open>+\<close> whenever neither operand of an addition is a
  string literal. For the target \<open>php\<close> the addition of two integer literals is emitted
  with the concatenation operator: \<open>translate_binop\<close> tells the two cases apart, but
  \<open>translate_operator\<close> returns the dot for every addition.
\<close>

theorem php_integer_addition_uses_dot:
  "translate_expr ''php'' (BinOp (Constant (CInt 1)) Add (Constant (CInt 2))) False = ''1 . 2''"
  by code_simp

section \<open>State and text of the statement methods\<close>

text \<open>
  After any statement method the object has its target language, indentation level and
  flag unchanged, and its variable set extended by the names assigned inside.
\<close>

lemmas stmt_induct =
  translate_statement_translate_function_translate_class_translate_if_translate_for_translate_while_translate_body_translate_body_loop.induct

lemmas block_simps =
  translate_function.simps translate_class.simps translate_for.simps translate_while.simps
  translate_body.simps

lemma translate_assignment_state:
  "state_after self (assigned_names (Assign t ts v)) (snd (translate_assignment self t v))"
  by (cases t) (simp_all add: translate_assignment_def Let_def state_after_def)

lemma state_fields:
  "state_after self (assigned_names s) (snd (translate_statement self s))"
  "state_after self (\<Union>s\<in>set body. assigned_names s) (snd (translate_function self name args body))"
  "state_after self (\<Union>s\<in>set body. assigned_names s) (snd (translate_class self name body))"
  "state_after self ((\<Union>s\<in>set body. assigned_names s) \<union> (\<Union>s\<in>set orelse. assigned_names s))
     (snd (translate_if self test body orelse))"
  "state_after self (\<Union>s\<in>set body. assigned_names s) (snd (translate_for self target iter body))"
  "state_after self (\<Union>s\<in>set body. assigned_names s) (snd (translate_while self test body))"
  "state_after self (\<Union>s\<in>set body. assigned_names s) (snd (translate_body self body))"
  "state_after self (\<Union>s\<in>set body. assigned_names s) (snd (translate_body_loop self body))"
proof (induction self s and self name args body and self name body and self test body orelse
    and self target iter body and self test body and self body and self body
    rule: stmt_induct)
  case (3 self target0 targets val)
  then show ?case
    using translate_assignment_state [of self target0 targets val] by simp
next
  case (18 self test body orelse)
  let ?s1 = "self\<lparr>indent_level := indent_level self + 1\<rparr>"
  obtain if_body y where tb: "translate_body ?s1 body = (if_body, y)"
    by fastforce
  have y: "state_after ?s1 (\<Union>s\<in>set body. assigned_names s) y"
    using 18(1) [OF refl] tb by simp
  show ?case
  proof (cases "orelse = []")
    case True
    with tb y show ?thesis by (simp add: Let_def state_after_def translate_if.simps)
  next
    case False
    let ?xb = "y\<lparr>indent_level := indent_level y - 1\<rparr>"
    let ?s2 = "?xb\<lparr>indent_level := indent_level ?xb + 1\<rparr>"
    obtain else_body z where te: "translate_body ?s2 orelse = (else_body, z)"
      by fastforce
    have "state_after ?s2 (\<Union>s\<in>set orelse. assigned_names s) z"
      using 18(2) [OF refl tb [symmetric] refl refl False] te by simp
    with tb te y False show ?thesis
      by (simp add: Let_def state_after_def Un_assoc translate_if.simps)
  qed
qed (auto simp: Let_def state_after_def block_simps split: prod.splits)

lemmas sf = state_fields [unfolded state_after_def]

section \<open>Target languages no branch tests for\<close>

lemma same_lang_refl: "same_lang l l"
  by (simp add: same_lang_def)

lemma same_lang_test: "same_lang l' l \<Longrightarrow> x \<in> set known_langs \<Longrightarrow> (l' = x) = (l = x)"
  by (auto simp: same_lang_def)

lemma same_lang_simple:
  assumes "same_lang l' l"
  shows "translate_operator l' = translate_operator l"
    and "translate_compare_op l' = translate_compare_op l"
    and "call_print l' = call_print l"
    and "call_len l' = call_len l"
    and "call_str l' = call_str l"
proof -
  note t = same_lang_test [OF assms]
  show "translate_operator l' = translate_operator l"
    by (intro ext) (simp add: translate_operator_def t known_langs_def split: operator.splits)
  show "translate_compare_op l' = translate_compare_op l"
    by (intro ext) (simp add: translate_compare_op_def t known_langs_def split: cmpop.splits)
  show "call_print l' = call_print l"
    by (intro ext) (simp add: call_print_def t known_langs_def)
  show "call_len l' = call_len l"
    by (intro ext) (simp add: call_len_def t known_langs_def)
  show "call_str l' = call_str l"
    by (intro ext) (simp add: call_str_def t known_langs_def)
qed

lemma translate_expr_same_lang:
  assumes sl: "same_lang l' l"
  shows "translate_expr l' e b = translate_expr l e b"
proof (induction e arbitrary: b)
  case (Constant v)
  show ?case by simp
next
  case (Name ident)
  show ?case
    by (simp add: same_lang_test [OF sl] known_langs_def split del: if_split cong: if_cong)
next
  case (Call f args)
  have f: "(case f of Name n \<Rightarrow> n | Attribute v attr \<Rightarrow> translate_attribute l' v attr
             | _ \<Rightarrow> translate_expr l' f False) =
           (case f of Name n \<Rightarrow> n | Attribute v attr \<Rightarrow> translate_attribute l v attr
             | _ \<Rightarrow> translate_expr l f False)"
    using Call.IH(1) [of False] by (cases f) simp_all
  have a: "map (\<lambda>arg. translate_expr l' arg False) args = map (\<lambda>arg. translate_expr l arg False) args"
    using Call.IH(2) by simp
  have h: "\<And>g d. (case args of a # x \<Rightarrow> g (translate_expr l' a False) | [] \<Rightarrow> d) =
      (case args of a # x \<Rightarrow> g (translate_expr l a False) | [] \<Rightarrow> d)"
    using Call.IH(2) by (cases args) simp_all
  show ?case
    unfolding translate_expr.simps translate_call.simps f a
    using h [where g = "\<lambda>n. ''Array.from({length: '' @ n @ ''}, (_, i) => i)''" and d = "''[]''"]
      h [where g = "\<lambda>n. ''range(0, '' @ n @ '' - 1)''" and d = "''[]''"]
      h [where g = "\<lambda>n. ''(0...'' @ n @ '')''" and d = "''(0...0)''"]
    by (simp add: Let_def same_lang_test [OF sl] known_langs_def same_lang_simple [OF sl]
        split del: if_split cong: if_cong)
next
  case (BinOp left op right)
  show ?case
    by (simp add: translate_binop.simps Let_def BinOp.IH same_lang_test [OF sl] known_langs_def
        same_lang_simple [OF sl] split del: if_split cong: if_cong)
next
  case (Compare left ops comparators)
  have m: "map (\<lambda>(op, comparator). translate_compare_op l' op @ '' '' @ translate_expr l' comparator False)
          (zip ops comparators) =
        map (\<lambda>(op, comparator). translate_compare_op l op @ '' '' @ translate_expr l comparator False)
          (zip ops comparators)"
    using Compare.IH(2) by (auto simp: same_lang_simple [OF sl] dest: set_zip_rightD)
  show ?case
    unfolding translate_expr.simps translate_compare.simps m Compare.IH(1) by (rule refl)
next
  case (Attribute v attr)
  show ?case
    by (simp add: translate_attribute.simps Let_def Attribute.IH same_lang_test [OF sl]
        known_langs_def split del: if_split cong: if_cong)
next
  case (Subscript v slice)
  show ?case by (simp add: translate_subscript.simps Subscript.IH)
next
  case (List elts)
  have m: "map (\<lambda>el. translate_expr l' el False) elts = map (\<lambda>el. translate_expr l el False) elts"
    using List.IH by simp
  show ?case
    unfolding translate_expr.simps translate_list.simps m
    by (simp add: translate_list.simps Let_def same_lang_test [OF sl] known_langs_def
        split del: if_split cong: if_cong)
next
  case (Dict keys vals)
  have m: "map (\<lambda>(key, v).
               (let key_str = (case key of None \<Rightarrow> ''null'' | Some k \<Rightarrow> translate_expr l' k False);
                    value_str = translate_expr l' v False
                in if l' = ''php'' then key_str @ '' => '' @ value_str
                   else key_str @ '': '' @ value_str)) (zip keys vals) =
        map (\<lambda>(key, v).
               (let key_str = (case key of None \<Rightarrow> ''null'' | Some k \<Rightarrow> translate_expr l k False);
                    value_str = translate_expr l v False
                in if l = ''php'' then key_str @ '' => '' @ value_str
                   else key_str @ '': '' @ value_str)) (zip keys vals)"
    using Dict.IH
    by (auto simp: Let_def same_lang_test [OF sl] known_langs_def
        dest!: zip_memD split: option.splits)
  show ?case
    unfolding translate_expr.simps translate_dict.simps m
    by (simp add: Let_def same_lang_test [OF sl] known_langs_def
        split del: if_split cong: if_cong)
next
  case (Tuple elts)
  have m: "map (\<lambda>el. translate_expr l' el False) elts = map (\<lambda>el. translate_expr l el False) elts"
    using Tuple.IH by simp
  show ?case
    unfolding translate_expr.simps translate_tuple.simps m
    by (simp add: translate_tuple.simps Let_def same_lang_test [OF sl] known_langs_def
        split del: if_split cong: if_cong)
next
  case (UnaryOp uop operand)
  show ?case by (simp add: translate_unaryop.simps Let_def UnaryOp.IH)
next
  case (BoolOp bop vals)
  have m: "map (\<lambda>v. translate_expr l' v False) vals = map (\<lambda>v. translate_expr l v False) vals"
    using BoolOp.IH by simp
  show ?case
    unfolding translate_expr.simps translate_boolop.simps m by (rule refl)
next
  case (IfExp test body orelse)
  show ?case by (simp add: translate_ifexp.simps IfExp.IH)
next
  case OtherExpr
  show ?case by simp
qed

lemma same_lang_texts:
  assumes "same_lang l' l"
  shows "function_text l' = function_text l"
    and "class_text l' = class_text l"
    and "if_text l' = if_text l"
    and "else_text l' = else_text l"
    and "for_text l' = for_text l"
    and "while_text l' = while_text l"
    and "assignment_text l' = assignment_text l"
proof -
  note t = same_lang_test [OF assms]
  show "function_text l' = function_text l"
    by (intro ext)
      (simp add: function_text_def t known_langs_def Let_def split del: if_split cong: if_cong)
  show "class_text l' = class_text l"
    by (intro ext)
      (simp add: class_text_def t known_langs_def Let_def split del: if_split cong: if_cong)
  show "if_text l' = if_text l"
    by (intro ext)
      (simp add: if_text_def t known_langs_def split del: if_split cong: if_cong)
  show "else_text l' = else_text l"
    by (intro ext)
      (simp add: else_text_def t known_langs_def split del: if_split cong: if_cong)
  show "for_text l' = for_text l"
    by (intro ext)
      (simp add: for_text_def t known_langs_def Let_def split del: if_split cong: if_cong)
  show "while_text l' = while_text l"
    by (intro ext)
      (simp add: while_text_def t known_langs_def split del: if_split cong: if_cong)
  show "assignment_text l' = assignment_text l"
    by (intro ext)
      (simp add: assignment_text_def t known_langs_def split del: if_split cong: if_cong)
qed

lemmas same_lang_rewrites = same_lang_simple same_lang_texts translate_expr_same_lang

text \<open>
  The text a statement method returns depends on the indentation level of the object and
  on its target language only, and is the same for all target languages that no branch
  tests for.
\<close>

lemma same_context_fields:
  assumes "same_context self' self"
  shows "same_lang (target_lang self') (target_lang self)"
    and "indent_level self' = indent_level self"
    and "get_indent self' = get_indent self"
  using assms by (simp_all add: same_context_def get_indent_def)

lemma translate_assignment_fst:
  "fst (translate_assignment self t v) =
     assignment_text (target_lang self) (get_indent self)
       (translate_expr (target_lang self) t True) (translate_expr (target_lang self) v False)"
  by (cases t) (simp_all add: translate_assignment_def Let_def get_indent_def)

lemma simple_texts:
  assumes c: "same_context self' self"
  shows "translate_parameters self' args = translate_parameters self args"
    and "fst (translate_assignment self' t v) = fst (translate_assignment self t v)"
    and "translate_aug_assignment self' t aop v = translate_aug_assignment self t aop v"
    and "translate_return self' r = translate_return self r"
    and "translate_expression_stmt self' v = translate_expression_stmt self v"
    and "translate_pass self' = translate_pass self"
proof -
  note f = same_context_fields [OF c]
  note lc = same_lang_rewrites [OF f(1)] same_lang_test [OF f(1)] f(3) known_langs_def
  show "translate_parameters self' args = translate_parameters self args"
    by (simp add: translate_parameters_def lc split del: if_split cong: if_cong)
  show "fst (translate_assignment self' t v) = fst (translate_assignment self t v)"
    by (simp add: translate_assignment_fst lc)
  show "translate_aug_assignment self' t aop v = translate_aug_assignment self t aop v"
    by (simp add: translate_aug_assignment_def Let_def lc split del: if_split cong: if_cong)
  show "translate_return self' r = translate_return self r"
    by (cases r) (simp_all add: translate_return_def lc)
  show "translate_expression_stmt self' v = translate_expression_stmt self v"
    by (simp add: translate_expression_stmt_def Let_def lc split del: if_split cong: if_cong)
  show "translate_pass self' = translate_pass self"
    by (simp add: translate_pass_def lc split del: if_split cong: if_cong)
qed

lemma text_independent:
  "\<forall>self'. same_context self' self \<longrightarrow>
     fst (translate_statement self' s) = fst (translate_statement self s)"
  "\<forall>self'. same_context self' self \<longrightarrow>
     fst (translate_function self' name args body) = fst (translate_function self name args body)"
  "\<forall>self'. same_context self' self \<longrightarrow>
     fst (translate_class self' name body) = fst (translate_class self name body)"
  "\<forall>self'. same_context self' self \<longrightarrow>
     fst (translate_if self' test body orelse) = fst (translate_if self test body orelse)"
  "\<forall>self'. same_context self' self \<longrightarrow>
     fst (translate_for self' target iter body) = fst (translate_for self target iter body)"
  "\<forall>self'. same_context self' self \<longrightarrow>
     fst (translate_while self' test body) = fst (translate_while self test body)"
  "\<forall>self'. same_context self' self \<longrightarrow>
     fst (translate_body self' body) = fst (translate_body self body)"
  "\<forall>self'. same_context self' self \<longrightarrow>
     fst (translate_body_loop self' body) = fst (translate_body_loop self body)"
proof (induction self s and self name args body and self name body and self test body orelse
    and self target iter body and self test body and self body and self body
    rule: stmt_induct)
  case (1 self name args body)
  then show ?case unfolding translate_statement.simps .
next
  case (2 self name body)
  then show ?case unfolding translate_statement.simps .
next
  case (3 self target0 targets val)
  show ?case by (simp add: simple_texts)
next
  case (4 self target aop val)
  show ?case by (simp add: simple_texts)
next
  case (5 self test body orelse)
  then show ?case unfolding translate_statement.simps .
next
  case (6 self target iter body)
  then show ?case unfolding translate_statement.simps .
next
  case (7 self test body)
  then show ?case unfolding translate_statement.simps .
next
  case (8 self ret_value)
  show ?case by (simp add: simple_texts)
next
  case (9 self val)
  show ?case by (simp add: simple_texts)
next
  case (12 self)
  show ?case by (simp add: simple_texts)
next
  case (13 self)
  show ?case by (simp add: same_context_fields)
next
  case (14 self)
  show ?case by (simp add: same_context_fields)
next
  case (16 self name args body)
  show ?case
  proof (intro allI impI)
    fix self' assume c: "same_context self' self"
    note f = same_context_fields [OF c]
    note lc = same_lang_rewrites [OF f(1)] same_lang_test [OF f(1)] known_langs_def
    let ?s = "self\<lparr>indent_level := indent_level self + 1\<rparr>"
    let ?s' = "self'\<lparr>indent_level := indent_level self' + 1\<rparr>"
    from c have "same_context ?s' ?s" by (simp add: same_context_def)
    with 16 have b: "fst (translate_body ?s' body) = fst (translate_body ?s body)" by blast
    from b show "fst (translate_function self' name args body) =
        fst (translate_function self name args body)"
      by (simp add: translate_function.simps split_beta Let_def get_indent_def
          simple_texts(1) [OF c] sf lc f(2) split del: if_split cong: if_cong)
  qed
next
  case (17 self name body)
  show ?case
  proof (intro allI impI)
    fix self' assume c: "same_context self' self"
    note f = same_context_fields [OF c]
    note lc = same_lang_rewrites [OF f(1)] same_lang_test [OF f(1)] known_langs_def
    let ?s = "self\<lparr>indent_level := indent_level self + 1\<rparr>"
    let ?s' = "self'\<lparr>indent_level := indent_level self' + 1\<rparr>"
    from c have "same_context ?s' ?s" by (simp add: same_context_def)
    with 17 have b: "fst (translate_body ?s' body) = fst (translate_body ?s body)" by blast
    from b show "fst (translate_class self' name body) = fst (translate_class self name body)"
      by (simp add: translate_class.simps split_beta Let_def get_indent_def sf lc f(2))
  qed
next
  case (18 self test body orelse)
  show ?case
  proof (intro allI impI)
    fix self' assume c: "same_context self' self"
    note f = same_context_fields [OF c]
    note lc = same_lang_rewrites [OF f(1)] same_lang_test [OF f(1)] known_langs_def
    let ?s = "self\<lparr>indent_level := indent_level self + 1\<rparr>"
    let ?s' = "self'\<lparr>indent_level := indent_level self' + 1\<rparr>"
    from c have cs: "same_context ?s' ?s" by (simp add: same_context_def)
    with 18(1) have b: "fst (translate_body ?s' body) = fst (translate_body ?s body)" by blast
    show "fst (translate_if self' test body orelse) = fst (translate_if self test body orelse)"
    proof (cases "orelse = []")
      case True
      with b show ?thesis
        by (simp add: translate_if.simps split_beta Let_def get_indent_def sf lc f(2))
    next
      case False
      obtain if_body y where tb: "translate_body ?s body = (if_body, y)" by fastforce
      obtain if_body' y' where tb': "translate_body ?s' body = (if_body', y')" by fastforce
      let ?xb = "y\<lparr>indent_level := indent_level y - 1\<rparr>"
      let ?xb' = "y'\<lparr>indent_level := indent_level y' - 1\<rparr>"
      have t: "?xb\<lparr>indent_level := indent_level ?xb + 1\<rparr> = y"
        "?xb'\<lparr>indent_level := indent_level ?xb' + 1\<rparr> = y'"
        by simp_all
      have cy: "target_lang y = target_lang self \<and> indent_level y = indent_level self + 1"
        "target_lang y' = target_lang self' \<and> indent_level y' = indent_level self' + 1"
        using sf(7) [of ?s body] sf(7) [of ?s' body] tb tb' by simp_all
      with c have "same_context y' y" by (simp add: same_context_def)
      with 18(2) [OF refl tb [symmetric] refl refl False]
      have e: "fst (translate_body y' orelse) = fst (translate_body y orelse)"
        unfolding t by blast
      from b tb tb' have i: "if_body' = if_body" by simp
      have ct: "target_lang (snd (translate_body y orelse)) = target_lang y \<and>
          indent_level (snd (translate_body y orelse)) = indent_level y"
        "target_lang (snd (translate_body y' orelse)) = target_lang y' \<and>
          indent_level (snd (translate_body y' orelse)) = indent_level y'"
        using sf(7) [of y orelse] sf(7) [of y' orelse] by simp_all
      have l: "fst (translate_if self test body orelse) =
          else_text (target_lang self) (get_indent self)
            (if_text (target_lang self) (get_indent self)
               (translate_expr (target_lang self) test False) if_body)
            (fst (translate_body y orelse))"
        unfolding translate_if.simps Let_def tb prod.case t
        using False cy(1) ct(1)
        by (simp add: split_beta get_indent_def)
      have r: "fst (translate_if self' test body orelse) =
          else_text (target_lang self') (get_indent self')
            (if_text (target_lang self') (get_indent self')
               (translate_expr (target_lang self') test False) if_body')
            (fst (translate_body y' orelse))"
        unfolding translate_if.simps Let_def tb' prod.case t
        using False cy(2) ct(2)
        by (simp add: split_beta get_indent_def)
      from e i show ?thesis
        unfolding l r by (simp add: f(3) lc)
    qed
  qed
next
  case (19 self target iter body)
  show ?case
  proof (intro allI impI)
    fix self' assume c: "same_context self' self"
    note f = same_context_fields [OF c]
    note lc = same_lang_rewrites [OF f(1)] same_lang_test [OF f(1)] known_langs_def
    let ?s = "self\<lparr>indent_level := indent_level self + 1\<rparr>"
    let ?s' = "self'\<lparr>indent_level := indent_level self' + 1\<rparr>"
    from c have "same_context ?s' ?s" by (simp add: same_context_def)
    with 19 have b: "fst (translate_body ?s' body) = fst (translate_body ?s body)" by blast
    from b show "fst (translate_for self' target iter body) =
        fst (translate_for self target iter body)"
      by (simp add: translate_for.simps split_beta Let_def get_indent_def sf lc f(2))
  qed
next
  case (20 self test body)
  show ?case
  proof (intro allI impI)
    fix self' assume c: "same_context self' self"
    note f = same_context_fields [OF c]
    note lc = same_lang_rewrites [OF f(1)] same_lang_test [OF f(1)] known_langs_def
    let ?s = "self\<lparr>indent_level := indent_level self + 1\<rparr>"
    let ?s' = "self'\<lparr>indent_level := indent_level self' + 1\<rparr>"
    from c have "same_context ?s' ?s" by (simp add: same_context_def)
    with 20 have b: "fst (translate_body ?s' body) = fst (translate_body ?s body)" by blast
    from b show "fst (translate_while self' test body) = fst (translate_while self test body)"
      by (simp add: translate_while.simps split_beta Let_def get_indent_def sf lc f(2))
  qed
next
  case (21 self body)
  show ?case
  proof (intro allI impI)
    fix self' assume c: "same_context self' self"
    note f = same_context_fields [OF c]
    from c 21 have b: "fst (translate_body_loop self' body) = fst (translate_body_loop self body)"
      by blast
    from b show "fst (translate_body self' body) = fst (translate_body self body)"
      by (simp add: translate_body.simps split_beta get_indent_def sf f(2))
  qed
next
  case (23 self stmt rest)
  show ?case
  proof (intro allI impI)
    fix self' assume c: "same_context self' self"
    obtain x y where ts: "translate_statement self stmt = (x, y)" by fastforce
    obtain x' y' where ts': "translate_statement self' stmt = (x', y')" by fastforce
    from 23(1) c ts ts' have x: "x' = x" by fastforce
    have "target_lang y = target_lang self \<and> indent_level y = indent_level self"
      "target_lang y' = target_lang self' \<and> indent_level y' = indent_level self'"
      using sf(1) [of self stmt] sf(1) [of self' stmt] ts ts' by simp_all
    with c have "same_context y' y" by (simp add: same_context_def)
    with 23(2) [OF ts [symmetric]]
    have "fst (translate_body_loop y' rest) = fst (translate_body_loop y rest)" by blast
    with x ts ts' show "fst (translate_body_loop self' (stmt # rest)) =
        fst (translate_body_loop self (stmt # rest))"
      by (simp add: split_beta)
  qed
qed simp_all

lemma translate_module_loop_state:
  "state_after self (\<Union>s\<in>set body. assigned_names s) (snd (snd (translate_module_loop self body)))"
proof (induction body arbitrary: self)
  case Nil
  show ?case by (simp add: state_after_def)
next
  case (Cons stmt rest)
  obtain code self1 where ts: "translate_statement self stmt = (code, self1)" by fastforce
  have s1: "state_after self (assigned_names stmt) self1"
    using state_fields(1) [of self stmt] ts by simp
  from Cons [of self1] s1 ts show ?case
    by (simp add: state_after_def split_beta Un_assoc)
qed

lemma translate_module_loop_text:
  "same_context self' self \<Longrightarrow>
     fst (translate_module_loop self' body) = fst (translate_module_loop self body) \<and>
     fst (snd (translate_module_loop self' body)) = fst (snd (translate_module_loop self body))"
proof (induction body arbitrary: self self')
  case Nil
  show ?case by simp
next
  case (Cons stmt rest)
  obtain x y where ts: "translate_statement self stmt = (x, y)" by fastforce
  obtain x' y' where ts': "translate_statement self' stmt = (x', y')" by fastforce
  from text_independent(1) [of self stmt] Cons.prems ts ts' have x: "x' = x" by fastforce
  have "target_lang y = target_lang self \<and> indent_level y = indent_level self"
    "target_lang y' = target_lang self' \<and> indent_level y' = indent_level self'"
    using sf(1) [of self stmt] sf(1) [of self' stmt] ts ts' by simp_all
  with Cons.prems have "same_context y' y" by (simp add: same_context_def)
  from Cons.IH [OF this] x ts ts' show ?case
    by (simp add: split_beta)
qed

lemma translate_state:
  "state_after self
     (case parse code of None \<Rightarrow> {} | Some tree \<Rightarrow> \<Union>s\<in>set tree. assigned_names s)
     (snd (translate parse self code))"
  using translate_module_loop_state [of self]
  by (simp add: translate_def translate_module_def split_beta state_after_def split: option.splits)

lemma add_language_wrappers_same_lang:
  "same_lang (target_lang self') (target_lang self) \<Longrightarrow>
     add_language_wrappers self' code = add_language_wrappers self code"
  by (simp add: add_language_wrappers_def same_lang_test known_langs_def
      split del: if_split cong: if_cong)

lemma translate_text:
  assumes "same_context self' self"
  shows "fst (translate parse self' code) = fst (translate parse self code)"
proof (cases "parse code")
  case None
  then show ?thesis by (simp add: translate_def)
next
  case (Some tree)
  note f = same_context_fields [OF assms]
  have l: "target_lang (snd (snd (translate_module_loop self tree))) = target_lang self"
    "target_lang (snd (snd (translate_module_loop self' tree))) = target_lang self'"
    using translate_module_loop_state [of self tree] translate_module_loop_state [of self' tree]
    by (simp_all add: state_after_def)
  have m: "fst (translate_module self' tree) = fst (translate_module self tree)"
    using translate_module_loop_text [OF assms, of tree]
    by (simp add: translate_module_def split_beta l same_lang_test [OF f(1)] known_langs_def
        split del: if_split cong: if_cong)
  have "same_lang (target_lang (snd (translate_module self' tree)))
      (target_lang (snd (translate_module self tree)))"
    using f(1) by (simp add: translate_module_def split_beta l)
  from add_language_wrappers_same_lang [OF this] m Some show ?thesis
    by (simp add: translate_def split_beta)
qed

section \<open>Determinism on one translator object\<close>


section \<open>Scope of the indentation level and of the variable set\<close>



section \<open>Declaration keyword on re-assignment\<close>

text \<open>
  C1. Two assignments to \<open>x\<close> at the top level: for the targets \<open>javascript\<close> and \<open>go\<close>
  the second assignment carries the declaration keyword (\<open>let\<close>, \<open>:=\<close>) again.
  \<open>translate_assignment\<close> adds the name to \<open>self.variables\<close> and then emits the declaring
  form without looking the name up.
\<close>

theorem reassignment_declares_again:
  "fst (translate_module (PythonToTargetTranslator ''javascript'')
          [Assign (Name ''x'') [] (Constant (CInt 5)), Assign (Name ''x'') [] (Constant (CInt 6))])
     = ''let x = 5;'' @ NL @ NL @ ''let x = 6;'' \<and>
   fst (translate_module (PythonToTargetTranslator ''go'')
          [Assign (Name ''x'') [] (Constant (CInt 5)), Assign (Name ''x'') [] (Constant (CInt 6))])
     = ''x := 5'' @ NL @ NL @ ''x := 6''"
  by code_simp

section \<open>The Java wrapper\<close>

text \<open>
  C3. A program of one function definition, \<open>def f(): print(1)\<close>, translated for Java: the
  wrapping class holds the header line of \<open>f\<close> alone, and the statement of its body has
  moved into \<open>main\<close>, whose body is therefore not empty. \<open>add_language_wrappers\<close> sorts
  the translated text line by line, so only the first line of a definition counts as a
  class member.
\<close>

theorem java_wrapper_moves_function_body_to_main:
  "smart_translate
     (\<lambda>_. Some [FunctionDef ''f'' [] [Expr (Call (Name ''print'') [Constant (CInt 1)])]])
     ''def f(): print(1)'' ''Python'' ''Java''
   = ''public class MeroTranslated {'' @ NL @
     ''public static void f() {'' @ NL @
     NL @
     ''    public static void main(String[] args) {'' @ NL @
     ''        System.out.println(1);'' @ NL @
     ''    }'' @ NL @
     ''}''"
  by code_simp

section \<open>Empty bodies\<close>

lemma mem_dropWhile: "x \<in> set xs \<Longrightarrow> \<not> P x \<Longrightarrow> x \<in> set (dropWhile P xs)"
  by (induction xs) auto

lemma strip_Nil_iff: "strip s = [] \<longleftrightarrow> (\<forall>c\<in>set s. isspace c)"
  by (auto simp: strip_def dropWhile_eq_Nil_conv dest: set_dropWhileD mem_dropWhile)

lemma times4_blank: "c \<in> set (times4 n) \<Longrightarrow> c = CHR '' ''"
  by (auto simp: times4_def split: if_splits)

lemma isspace_blank: "isspace (CHR '' '')"
  by (simp add: isspace_def)

lemma blank_body_strip: "strip (times4 n @ ''    '') = []"
  by (auto simp: strip_Nil_iff isspace_blank dest: times4_blank)

text \<open>
  C4, as stated, fails. A Ruby class whose body is \<open>pass\<close>, and a JavaScript \<open>if\<close> whose
  body is an import, are emitted with a body of eight blanks, an empty block: only
  \<open>translate_function\<close> replaces a blank body. A JavaScript function whose body is an
  import gets the identifier \<open>mero_empty\<close> as its body, not a semicolon.
\<close>

theorem empty_class_and_if_bodies_counterexample:
  "fst (translate_statement (PythonToTargetTranslator ''ruby'') (ClassDef ''A'' [Pass])) =
     ''class A'' @ NL @ ''        '' @ NL @ ''end'' \<and>
   fst (translate_statement (PythonToTargetTranslator ''javascript'')
          (IfStmt (Name ''x'') [Import] [])) =
     ''if (x) {'' @ NL @ ''        '' @ NL @ ''}'' \<and>
   strip ''        '' = [] \<and>
   fst (translate_statement (PythonToTargetTranslator ''javascript'')
          (FunctionDef ''f'' [] [Import])) =
     ''function f() {'' @ NL @ ''    mero_empty'' @ NL @ ''}''"
  by code_simp

text \<open>
  C4, amended. A function whose body is empty after filtering (no statement of the body
  has a non-blank translation) is emitted with a body of exactly one line, which is not
  blank: the indentation followed by \<open>pass\<close> for the targets \<open>python\<close> and \<open>ruby\<close>, and
  by the placeholder \<open>mero_empty\<close> for every other target.
\<close>

theorem empty_function_body_placeholder:
  assumes "fst (translate_body_loop (self\<lparr>indent_level := indent_level self + 1\<rparr>) body) = []"
  shows "(let noop = (if target_lang self \<in> set [''python'', ''ruby''] then ''pass''
                      else ''mero_empty'');
              line = get_indent self @ ''    '' @ noop;
              func_name =
                (if name = ''__init__'' then
                   (if target_lang self = ''php'' then ''__construct''
                    else if target_lang self \<in> set [''javascript'', ''typescript'']
                    then ''constructor'' else name)
                 else name)
          in fst (translate_function self name args body) =
               function_text (target_lang self) (get_indent self) func_name
                 (translate_parameters self args) line
             \<and> strip line \<noteq> [] \<and> CHR 0x0A \<notin> set line)"
proof -
  let ?s = "self\<lparr>indent_level := indent_level self + 1\<rparr>"
  have b: "fst (translate_body ?s body) = times4 (indent_level self + 1) @ ''    ''"
    using assms sf(8) [of ?s body]
    by (simp add: translate_body.simps split_beta get_indent_def)
  have st: "strip (fst (translate_body ?s body)) = []"
    unfolding b by (rule blank_body_strip)
  have nb: "\<not> isspace (CHR ''p'')" "\<not> isspace (CHR ''m'')"
    by (simp_all add: isspace_def)
  have l1: "strip (get_indent self @ ''    pass'') \<noteq> []"
    "strip (get_indent self @ ''    mero_empty'') \<noteq> []"
    using nb by (auto simp: strip_Nil_iff)
  have l2: "CHR 0x0A \<notin> set (get_indent self)"
    by (auto simp: get_indent_def dest: times4_blank)
  from st l1 l2 show ?thesis
    using sf(7) [of ?s body]
    by (simp add: translate_function.simps split_beta Let_def get_indent_def)
qed

theorem empty_function_body_placeholder_witness:
  "fst (translate_body_loop
          ((PythonToTargetTranslator ''javascript'')
             \<lparr>indent_level := indent_level (PythonToTargetTranslator ''javascript'') + 1\<rparr>)
          [Import]) = [] \<and>
   fst (translate_function (PythonToTargetTranslator ''javascript'') ''f'' [] [Import]) =
     ''function f() {'' @ NL @ ''    mero_empty'' @ NL @ ''}''"
  using empty_function_body_placeholder
    [of "PythonToTargetTranslator ''javascript''" "[Import]" "''f''" "[]"]
  by (simp add: PythonToTargetTranslator_def lower_def Let_def function_text_def get_indent_def
      times4_def translate_parameters_def)

section \<open>Non-empty text for every node\<close>

lemma join_nonempty: "xs \<noteq> [] \<Longrightarrow> hd xs \<noteq> [] \<Longrightarrow> join sep xs \<noteq> []"
  by (induction sep xs rule: join.induct) auto

lemma str_nat_nonempty: "str_nat n \<noteq> []"
  by (subst str_nat.simps) simp

lemma translate_constant_nonempty:
  "(case v of COther s \<Rightarrow> s \<noteq> [] | _ \<Rightarrow> True) \<Longrightarrow> translate_constant v \<noteq> []"
  by (cases v) (auto simp: translate_constant_def str_int_def str_nat_nonempty split: bool.splits)

lemma call_texts_nonempty:
  "call_print lang a \<noteq> []" "call_len lang a \<noteq> []" "call_str lang a \<noteq> []"
  by (simp_all add: call_print_def call_len_def call_str_def)

lemma translate_operator_nonempty: "translate_operator lang op \<noteq> []"
  by (cases op) (simp_all add: translate_operator_def)

lemma translate_call_nonempty: "translate_call lang f args \<noteq> []"
  by (simp add: translate_call.simps Let_def call_texts_nonempty split: list.splits)

lemma expr_nonempty: "wf_expr e \<Longrightarrow> translate_expr lang e b \<noteq> []"
proof (induction e arbitrary: b)
  case (Constant v)
  then show ?case by (simp add: translate_constant_nonempty)
next
  case (Name ident)
  then show ?case by (auto simp: translate_constant_name_def)
next
  case (Call f args)
  show ?case by (simp add: translate_call_nonempty)
next
  case (BinOp l op r)
  show ?case by (simp add: translate_binop.simps Let_def)
next
  case (Compare l ops cs)
  then show ?case
    by (simp add: translate_compare.simps join_nonempty)
next
  case (Attribute v attr)
  show ?case by (simp add: translate_attribute.simps Let_def)
next
  case (Subscript v slice)
  show ?case by (simp add: translate_subscript.simps)
next
  case (List elts)
  show ?case by (simp add: translate_list.simps Let_def)
next
  case (Dict keys vals)
  show ?case by (simp add: translate_dict.simps Let_def)
next
  case (Tuple elts)
  show ?case by (simp add: translate_tuple.simps Let_def)
next
  case (UnaryOp uop operand)
  then show ?case by (cases uop) (simp_all add: translate_unaryop.simps Let_def)
next
  case (BoolOp bop vals)
  then have "map (\<lambda>v. translate_expr lang v False) vals \<noteq> []"
    "hd (map (\<lambda>v. translate_expr lang v False) vals) \<noteq> []"
    by (cases vals; simp)+
  then show ?case
    by (cases bop) (simp_all add: translate_boolop.simps Let_def join_nonempty)
next
  case (IfExp test body orelse)
  show ?case by (simp add: translate_ifexp.simps)
next
  case OtherExpr
  show ?case by simp
qed

lemma block_texts_nonempty:
  "function_text lang ind f p body \<noteq> []"
  "class_text lang ind c body \<noteq> []"
  "if_text lang ind cond body \<noteq> []"
  "else_text lang ind r body \<noteq> []"
  "for_text lang ind v it body \<noteq> []"
  "while_text lang ind cond body \<noteq> []"
  "assignment_text lang ind t v \<noteq> []"
  by (simp_all add: function_text_def class_text_def if_text_def else_text_def for_text_def
      while_text_def assignment_text_def Let_def)




section \<open>Target identifiers outside the catalogue\<close>




end
